theory Spec2Isabelle
  imports Complex_Main "HOL-Library.Sublist"
begin

section \<open>Data model of the target distribution data check\<close>

text \<open>
  The check lives in \<^verbatim>\<open>evalml/data_checks/target_distribution_data_check.py\<close>.
  It calls into pandas, NumPy, SciPy and Woodwork. The values of the target series
  are of a type \<open>'v\<close> of NumPy numbers (int64 for an Integer target, float64 for a
  Double target and for every mean, standard deviation and logarithm); their
  arithmetic is not part of the source file and is taken as a parameter, so that
  what is proved of \<^verbatim>\<open>validate\<close> holds for wrapping integers and for rounding
  floats alike. Exceptions are values: a call that may raise returns
  \<open>py_exception + 'a\<close>, with \<open>Inl\<close> the exception.
\<close>

datatype py_exception = PyException string

text \<open>
  Modelled from the spec: the \<^verbatim>\<open>ProblemTypes\<close> enumeration is imported from
  \<^verbatim>\<open>evalml.problem_types\<close>. The check names two of its members; every other
  tag is kept with its name.
\<close>

datatype ProblemTypes = REGRESSION | TIME_SERIES_REGRESSION | OTHER_PROBLEM_TYPE string

text \<open>
  Modelled from the spec: the message and action codes, the levels and the shape of
  \<^verbatim>\<open>to_dict()\<close> come from \<^verbatim>\<open>evalml.data_checks\<close>; the docstring of
  \<^verbatim>\<open>validate\<close> shows the keys of both dictionaries.
\<close>

datatype DataCheckMessageCode =
  TARGET_IS_NONE
| TARGET_UNSUPPORTED_PROBLEM_TYPE
| TARGET_UNSUPPORTED_TYPE
| TARGET_LOGNORMAL_DISTRIBUTION

datatype DataCheckActionCode = TRANSFORM_TARGET | OTHER_ACTION string

datatype DataCheckLevel = ERROR | WARNING

text \<open>The values the check stores in its dictionaries.\<close>

datatype py_value =
  PyNone
| PyBool bool
| PyStr string
| PyProblemType ProblemTypes

type_synonym py_dict = "(string \<times> py_value) list"

record message_dict =
  message :: string
  data_check_name :: string
  level :: DataCheckLevel
  code :: DataCheckMessageCode
  details :: py_dict

record action_dict =
  action_code :: DataCheckActionCode
  metadata :: py_dict

record results_dict =
  warnings :: "message_dict list"
  errors :: "message_dict list"
  actions :: "action_dict list"

definition DataCheckError_to_dict ::
  "string \<Rightarrow> string \<Rightarrow> DataCheckMessageCode \<Rightarrow> py_dict \<Rightarrow> message_dict" where
  "DataCheckError_to_dict msg nm mc d =
     \<lparr>message = msg, data_check_name = nm, level = ERROR, code = mc, details = d\<rparr>"

definition DataCheckWarning_to_dict ::
  "string \<Rightarrow> string \<Rightarrow> DataCheckMessageCode \<Rightarrow> py_dict \<Rightarrow> message_dict" where
  "DataCheckWarning_to_dict msg nm mc d =
     \<lparr>message = msg, data_check_name = nm, level = WARNING, code = mc, details = d\<rparr>"

definition DataCheckAction_to_dict :: "DataCheckActionCode \<Rightarrow> py_dict \<Rightarrow> action_dict" where
  "DataCheckAction_to_dict ac md = \<lparr>action_code = ac, metadata = md\<rparr>"

text \<open>
  The result of \<^verbatim>\<open>scipy.stats.shapiro\<close>. The statistic and the p-value are
  Python floats; they are modelled by the real numbers they denote.
\<close>

record ShapiroResult =
  statistic :: real
  pvalue :: real

text \<open>
  What \<^verbatim>\<open>infer_feature_types\<close> returns: a Woodwork-typed series, with the type
  string of its logical type and its values, or a DataFrame (for a target of two
  dimensions), whose accessor has no \<^verbatim>\<open>logical_type\<close>.
\<close>

record 'v ww_series =
  type_string :: string
  vals :: "'v list"

datatype 'v ww_data = Series "'v ww_series" | DataFrame

text \<open>
  The arithmetic of lines 107 to 110, in the dtype of the target:
  \<^verbatim>\<open>v <= 0\<close>, \<^verbatim>\<open>y.min()\<close>, \<^verbatim>\<open>abs(m)\<close>, \<^verbatim>\<open>a + b\<close> and the literal \<^verbatim>\<open>1\<close>.
\<close>

record 'v dtype_ops =
  le_zero :: "'v \<Rightarrow> bool"
  series_min :: "'v list \<Rightarrow> 'v"
  abs_value :: "'v \<Rightarrow> 'v"
  dtype_add :: "'v \<Rightarrow> 'v \<Rightarrow> 'v"
  dtype_one :: 'v

text \<open>
  The float64 arithmetic of lines 112 to 116: \<^verbatim>\<open>y.mean()\<close>, \<^verbatim>\<open>y.std()\<close>,
  \<^verbatim>\<open>round(x, 3)\<close> on a NumPy float, \<^verbatim>\<open>a + b\<close>, \<^verbatim>\<open>3 * x\<close>, the comparison
  \<^verbatim>\<open>v < t\<close> of a value with the threshold, and \<^verbatim>\<open>np.log\<close>. The comparison
  \<^verbatim>\<open>v >= t\<close> is not used by the code; the specification's sentence on dropped
  values is written with it.
\<close>

record 'v float_ops =
  series_mean :: "'v list \<Rightarrow> 'v"
  series_std :: "'v list \<Rightarrow> 'v"
  round_3 :: "'v \<Rightarrow> 'v"
  float_add :: "'v \<Rightarrow> 'v \<Rightarrow> 'v"
  times_3 :: "'v \<Rightarrow> 'v"
  less_than :: "'v \<Rightarrow> 'v \<Rightarrow> bool"
  at_least :: "'v \<Rightarrow> 'v \<Rightarrow> bool"
  np_log :: "'v \<Rightarrow> 'v"

text \<open>
  The collaborators of \<^verbatim>\<open>validate\<close> that are not part of the source file are taken
  as parameters: type inference, the normality test (both may raise), the
  arithmetic of pandas and NumPy, the type strings of Woodwork's \<^verbatim>\<open>Integer\<close> and
  \<^verbatim>\<open>Double\<close>, and the string conversions that \<^verbatim>\<open>str.format\<close> and the f-string
  apply.
\<close>

record ('y, 'v) collaborators =
  infer_feature_types :: "'y \<Rightarrow> py_exception + 'v ww_data"
  shapiro :: "'v list \<Rightarrow> py_exception + ShapiroResult"
  dtype_arith :: "'v dtype_ops"
  float_arith :: "'v float_ops"
  Integer_type_string :: string
  Double_type_string :: string
  str_problem_type :: "ProblemTypes \<Rightarrow> string"
  str_float :: "real \<Rightarrow> string"

record TargetDistributionDataCheck =
  problem_type :: ProblemTypes

text \<open>\<^verbatim>\<open>DataCheck.name\<close> is the name of the class, as the docstring's example shows.\<close>

definition name :: "TargetDistributionDataCheck \<Rightarrow> string" where
  "name self = ''TargetDistributionDataCheck''"

section \<open>Helpers\<close>

text \<open>\<^verbatim>\<open>", ".join(xs)\<close>\<close>

fun join :: "string \<Rightarrow> string list \<Rightarrow> string" where
  "join sep [] = []"
| "join sep [x] = x"
| "join sep (x # y # ys) = x @ sep @ join sep (y # ys)"

text \<open>Rounding to the nearest integer, a tie going to the even neighbour.\<close>

definition round_half_even :: "real \<Rightarrow> int" where
  "round_half_even x =
     (let f = \<lfloor>x\<rfloor>; d = x - of_int f
      in if d < 1 / 2 then f
         else if 1 / 2 < d then f + 1
         else if even f then f else f + 1)"

text \<open>
  \<^verbatim>\<open>round(x, 3)\<close> on a Python float, as line 127 applies it to the statistic and
  the p-value: the nearest multiple of a thousandth, a tie going to the even one.
\<close>

definition round3 :: "real \<Rightarrow> real" where
  "round3 x = of_int (round_half_even (x * 1000)) / 1000"

section \<open>validate\<close>

text \<open>
  Lines 107 to 110: \<^verbatim>\<open>if any(y <= 0): y_new = y + abs(y.min()) + 1\<close>, else
  \<^verbatim>\<open>y_new = y\<close>. The sum is \<^verbatim>\<open>(y + abs(y.min())) + 1\<close>.
\<close>

definition shift_target :: "'v dtype_ops \<Rightarrow> 'v list \<Rightarrow> 'v list" where
  "shift_target d y =
     (if list_ex (le_zero d) y
      then map (\<lambda>v. dtype_add d (dtype_add d v (abs_value d (series_min d y)))
                            (dtype_one d)) y
      else y)"

text \<open>
  Lines 112 to 114:
  \<^verbatim>\<open>y_new = y_new[y_new < (y_new.mean() + 3 * round(y.std(), 3))]\<close>.
\<close>

definition drop_outliers :: "'v float_ops \<Rightarrow> 'v list \<Rightarrow> 'v list \<Rightarrow> 'v list" where
  "drop_outliers f y y_new =
     filter
       (\<lambda>v. less_than f v
               (float_add f (series_mean f y_new) (times_3 f (round_3 f (series_std f y)))))
       y_new"

definition empty_results :: results_dict where
  "empty_results = \<lparr>warnings = [], errors = [], actions = []\<rparr>"

text \<open>
  Lines 115 to 148: the two normality tests on the trimmed series and the decision.
\<close>

definition detect_lognormal ::
  "('y, 'v) collaborators \<Rightarrow> TargetDistributionDataCheck \<Rightarrow> 'v list
     \<Rightarrow> py_exception + results_dict" where
  "detect_lognormal env self y_new =
     (case shapiro env y_new of
        Inl e \<Rightarrow> Inl e
      | Inr shapiro_test_og \<Rightarrow>
          (case shapiro env (map (np_log (float_arith env)) y_new) of
             Inl e \<Rightarrow> Inl e
           | Inr shapiro_test_log \<Rightarrow>
               (let log_detected = (pvalue shapiro_test_og \<le> pvalue shapiro_test_log)
                in if log_detected
                   then Inr \<lparr>warnings =
                               [DataCheckWarning_to_dict
                                  ''Target may have a lognormal distribution.''
                                  (name self)
                                  TARGET_LOGNORMAL_DISTRIBUTION
                                  [(''shapiro-statistic/pvalue'',
                                    PyStr (str_float env (round3 (statistic shapiro_test_og))
                                           @ ''/''
                                           @ str_float env (round3 (pvalue shapiro_test_og))))]],
                             errors = [],
                             actions =
                               [DataCheckAction_to_dict TRANSFORM_TARGET
                                  [(''column'', PyNone),
                                   (''is_target'', PyBool True),
                                   (''transformation_strategy'', PyStr ''lognormal'')]]\<rparr>
                   else Inr empty_results)))"

text \<open>
  Line 87 reads \<^verbatim>\<open>y.ww.logical_type\<close>; on a DataFrame that attribute does not
  exist and the access raises.
\<close>

definition validate ::
  "('y, 'v) collaborators \<Rightarrow> TargetDistributionDataCheck \<Rightarrow> 'x \<Rightarrow> 'y option
     \<Rightarrow> py_exception + results_dict" where
  "validate env self X y =
     (case y of
        None \<Rightarrow>
          Inr \<lparr>warnings = [],
               errors = [DataCheckError_to_dict ''Target is None'' (name self)
                           TARGET_IS_NONE []],
               actions = []\<rparr>
      | Some y0 \<Rightarrow>
          if problem_type self \<notin> set [REGRESSION, TIME_SERIES_REGRESSION]
          then Inr \<lparr>warnings = [],
                    errors =
                      [DataCheckError_to_dict
                         (''Problem type '' @ str_problem_type env (problem_type self)
                          @ '' is unsupported. Valid problem types include: ''
                          @ ''[ProblemTypes.REGRESSION, ProblemTypes.TIME_SERIES_REGRESSION]'')
                         (name self)
                         TARGET_UNSUPPORTED_PROBLEM_TYPE
                         [(''unsupported_problem_type'', PyProblemType (problem_type self))]],
                    actions = []\<rparr>
          else
            (case infer_feature_types env y0 of
               Inl e \<Rightarrow> Inl e
             | Inr DataFrame \<Rightarrow> Inl (PyException ''AttributeError'')
             | Inr (Series y1) \<Rightarrow>
                 (let allowed_types = [Integer_type_string env, Double_type_string env];
                      is_supported_type = (type_string y1 \<in> set allowed_types)
                  in if \<not> is_supported_type
                     then Inr \<lparr>warnings = [],
                               errors =
                                 [DataCheckError_to_dict
                                    (''Target is unsupported '' @ type_string y1
                                     @ '' type. Valid Woodwork logical types include: ''
                                     @ join '', '' allowed_types)
                                    (name self)
                                    TARGET_UNSUPPORTED_TYPE
                                    [(''unsupported_type'', PyStr (type_string y1))]],
                               actions = []\<rparr>
                     else
                       (case shapiro env (vals y1) of
                          Inl e \<Rightarrow> Inl e
                        | Inr r \<Rightarrow>
                            if 0.05 \<le> pvalue r then Inr empty_results
                            else detect_lognormal env self
                                   (drop_outliers (float_arith env) (vals y1)
                                      (shift_target (dtype_arith env) (vals y1)))))))"

section \<open>The trimmed series in the words of the specification\<close>




text \<open>
  Whether the values of a details dictionary mention a given text, for the
  specification's sentence that the details of an unsupported-type error include the
  allowed types.
\<close>

fun value_mentions :: "py_value \<Rightarrow> string \<Rightarrow> bool" where
  "value_mentions (PyStr t) s = sublist s t"
| "value_mentions PyNone s = False"
| "value_mentions (PyBool b) s = False"
| "value_mentions (PyProblemType p) s = False"

definition details_mention :: "py_dict \<Rightarrow> string \<Rightarrow> bool" where
  "details_mention d s = list_ex (\<lambda>kv. value_mentions (snd kv) s) d"

section \<open>Two arithmetics\<close>

text \<open>
  Exact arithmetic on the reals: what the float64 operations compute when no result
  is rounded. The standard deviation is the sample one (one delta degree of
  freedom), as in pandas; the examples have three values or more, where it is a
  number.
\<close>

definition mean_of :: "real list \<Rightarrow> real" where
  "mean_of xs = sum_list xs / real (length xs)"

definition std_of :: "real list \<Rightarrow> real" where
  "std_of xs =
     sqrt (sum_list (map (\<lambda>x. (x - mean_of xs)\<^sup>2) xs) / real (length xs - 1))"

definition exact_dtype_ops :: "real dtype_ops" where
  "exact_dtype_ops =
     \<lparr>le_zero = (\<lambda>v. v \<le> 0),
      series_min = (\<lambda>y. Min (set y)),
      abs_value = (\<lambda>v. \<bar>v\<bar>),
      dtype_add = (\<lambda>a b. a + b),
      dtype_one = 1\<rparr>"

definition exact_float_ops :: "real float_ops" where
  "exact_float_ops =
     \<lparr>series_mean = mean_of,
      series_std = std_of,
      round_3 = round3,
      float_add = (\<lambda>a b. a + b),
      times_3 = (\<lambda>x. 3 * x),
      less_than = (\<lambda>v t. v < t),
      at_least = (\<lambda>v t. t \<le> v),
      np_log = ln\<rparr>"



section \<open>The estimator wrapper\<close>

text \<open>
  \<^verbatim>\<open>evalml/pipelines/components/estimator.py\<close>. The wrapped third-party model is an
  object of some state \<open>'m\<close>; its three methods are taken as parameters. Each may
  raise and may change the object, so a call returns its outcome together with the
  object after the call.
\<close>

record ('m, 'x, 'y, 'p, 'q, 's) third_party =
  obj_predict :: "'m \<Rightarrow> 'x \<Rightarrow> (py_exception + 'p) \<times> 'm"
  obj_predict_proba :: "'m \<Rightarrow> 'x \<Rightarrow> (py_exception + 'q) \<times> 'm"
  obj_score :: "'m \<Rightarrow> 'x \<Rightarrow> 'y \<Rightarrow> (py_exception + 's) \<times> 'm"

text \<open>
  Of the fields that \<^verbatim>\<open>ComponentBase.__init__\<close> stores, the three methods read
  \<^verbatim>\<open>_component_obj\<close> only.
\<close>

record 'm Estimator =
  component_obj :: 'm

text \<open>
  A method whose body is one expression statement returns \<^verbatim>\<open>None\<close>: the result
  type is an option, \<open>None\<close> for Python's \<^verbatim>\<open>None\<close> and \<open>Some\<close> for the value the
  docstring announces.
\<close>

definition predict ::
  "('m, 'x, 'y, 'p, 'q, 's) third_party \<Rightarrow> 'm Estimator \<Rightarrow> 'x
     \<Rightarrow> (py_exception + 'p option) \<times> 'm Estimator" where
  "predict lib self X =
     (case obj_predict lib (component_obj self) X of
        (Inl e, m) \<Rightarrow> (Inl e, self\<lparr>component_obj := m\<rparr>)
      | (Inr r, m) \<Rightarrow> (Inr None, self\<lparr>component_obj := m\<rparr>))"

definition predict_proba ::
  "('m, 'x, 'y, 'p, 'q, 's) third_party \<Rightarrow> 'm Estimator \<Rightarrow> 'x
     \<Rightarrow> (py_exception + 'q option) \<times> 'm Estimator" where
  "predict_proba lib self X =
     (case obj_predict_proba lib (component_obj self) X of
        (Inl e, m) \<Rightarrow> (Inl e, self\<lparr>component_obj := m\<rparr>)
      | (Inr r, m) \<Rightarrow> (Inr None, self\<lparr>component_obj := m\<rparr>))"

definition score ::
  "('m, 'x, 'y, 'p, 'q, 's) third_party \<Rightarrow> 'm Estimator \<Rightarrow> 'x \<Rightarrow> 'y \<Rightarrow> 'o option
     \<Rightarrow> (py_exception + 's option) \<times> 'm Estimator" where
  "score lib self X y other_objectives =
     (case obj_score lib (component_obj self) X y of
        (Inl e, m) \<Rightarrow> (Inl e, self\<lparr>component_obj := m\<rparr>)
      | (Inr r, m) \<Rightarrow> (Inr None, self\<lparr>component_obj := m\<rparr>))"

section \<open>Concrete collaborators for the worked examples\<close>

text \<open>
  A raw target is a column of numbers, a column of words, a table of two dimensions
  or an object that type inference cannot read. Type inference calls the first a
  double and the second categorical, returns a DataFrame for the third and raises
  on the fourth. The normality test refuses fewer than three values, as SciPy's
  does, and otherwise reads its p-value off the first value of the sample. The
  arithmetic is the exact one.
\<close>

datatype example_target =
  Numbers "real list"
| Words "string list"
| Table "real list list"
| Unreadable

fun example_infer :: "example_target \<Rightarrow> py_exception + real ww_data" where
  "example_infer (Numbers xs) = Inr (Series \<lparr>type_string = ''double'', vals = xs\<rparr>)"
| "example_infer (Words ws) = Inr (Series \<lparr>type_string = ''categorical'', vals = []\<rparr>)"
| "example_infer (Table rows) = Inr DataFrame"
| "example_infer Unreadable = Inl (PyException ''TypeError'')"

definition example_shapiro :: "real list \<Rightarrow> py_exception + ShapiroResult" where
  "example_shapiro xs =
     (if length xs < 3 then Inl (PyException ''ValueError'')
      else Inr \<lparr>statistic = 15 / 16,
                pvalue = (if hd xs < 0 then 1 / 1000
                          else if hd xs = 0 then 1 / 2
                          else if hd xs < 1 then 1 / 100
                          else 1 / 16)\<rparr>)"

fun example_str_problem_type :: "ProblemTypes \<Rightarrow> string" where
  "example_str_problem_type REGRESSION = ''regression''"
| "example_str_problem_type TIME_SERIES_REGRESSION = ''time series regression''"
| "example_str_problem_type (OTHER_PROBLEM_TYPE s) = s"

definition example_str_float :: "real \<Rightarrow> string" where
  "example_str_float r =
     (if r = 938 / 1000 then ''0.938'' else if r = 62 / 1000 then ''0.062'' else ''0.0'')"

definition example_env :: "(example_target, real) collaborators" where
  "example_env =
     \<lparr>infer_feature_types = example_infer,
      shapiro = example_shapiro,
      dtype_arith = exact_dtype_ops,
      float_arith = exact_float_ops,
      Integer_type_string = ''integer'',
      Double_type_string = ''double'',
      str_problem_type = example_str_problem_type,
      str_float = example_str_float\<rparr>"

definition regression_check :: TargetDistributionDataCheck where
  "regression_check = \<lparr>problem_type = REGRESSION\<rparr>"

definition binary_check :: TargetDistributionDataCheck where
  "binary_check = \<lparr>problem_type = OTHER_PROBLEM_TYPE ''binary''\<rparr>"

text \<open>
  The error that the words example gives: its details hold the detected type only.
\<close>

definition example_unsupported_type_error :: message_dict where
  "example_unsupported_type_error =
     \<lparr>message =
        ''Target is unsupported categorical type. ''
        @ ''Valid Woodwork logical types include: integer, double'',
      data_check_name = ''TargetDistributionDataCheck'',
      level = ERROR,
      code = TARGET_UNSUPPORTED_TYPE,
      details = [(''unsupported_type'', PyStr ''categorical'')]\<rparr>"

text \<open>
  A wrapped model whose state is the list of the calls made on it: every method
  records its name and returns a number.
\<close>

definition example_model ::
  "(string list, nat, nat, nat, nat, nat) third_party" where
  "example_model =
     \<lparr>obj_predict = (\<lambda>m X. (Inr (X + 1), m @ [''predict''])),
      obj_predict_proba = (\<lambda>m X. (Inr (X + 2), m @ [''predict_proba''])),
      obj_score = (\<lambda>m X y. (Inr (X + y), m @ [''score'']))\<rparr>"

section \<open>The collaborators and arithmetics of the examples\<close>

lemma example_env_simps:
  "infer_feature_types example_env = example_infer"
  "shapiro example_env = example_shapiro"
  "dtype_arith example_env = exact_dtype_ops"
  "float_arith example_env = exact_float_ops"
  "Integer_type_string example_env = ''integer''"
  "Double_type_string example_env = ''double''"
  "str_problem_type example_env = example_str_problem_type"
  "str_float example_env = example_str_float"
  by (simp_all add: example_env_def)

lemma exact_dtype_simps:
  "le_zero exact_dtype_ops v = (v \<le> 0)"
  "series_min exact_dtype_ops y = Min (set y)"
  "abs_value exact_dtype_ops v = \<bar>v\<bar>"
  "dtype_add exact_dtype_ops a b = a + b"
  "dtype_one exact_dtype_ops = 1"
  by (simp_all add: exact_dtype_ops_def)

lemma exact_float_simps:
  "series_mean exact_float_ops = mean_of"
  "series_std exact_float_ops = std_of"
  "round_3 exact_float_ops = round3"
  "float_add exact_float_ops a b = a + b"
  "times_3 exact_float_ops x = 3 * x"
  "less_than exact_float_ops v t = (v < t)"
  "at_least exact_float_ops v t = (t \<le> v)"
  "np_log exact_float_ops = ln"
  by (simp_all add: exact_float_ops_def)


subsection \<open>Rounding to three decimals\<close>

lemma round_half_even_cases:
  "round_half_even x = \<lfloor>x\<rfloor> \<and> x - of_int \<lfloor>x\<rfloor> \<le> 1 / 2
   \<or> round_half_even x = \<lfloor>x\<rfloor> + 1 \<and> 1 / 2 \<le> x - of_int \<lfloor>x\<rfloor>"
  by (auto simp: round_half_even_def Let_def)

lemma nearest_of_two:
  fixes r f x kk :: real
  assumes "r = f \<and> x - f \<le> 1 / 2 \<or> r = f + 1 \<and> 1 / 2 \<le> x - f"
      and "f \<le> x" and "x < f + 1"
      and "kk \<le> f \<or> f + 1 \<le> kk"
  shows "\<bar>r - x\<bar> \<le> \<bar>kk - x\<bar>"
  using assms by argo

lemma round_half_even_nearest:
  "\<bar>of_int (round_half_even x) - x\<bar> \<le> \<bar>of_int k - x\<bar>"
proof -
  have lo: "of_int \<lfloor>x\<rfloor> \<le> x" and hi: "x < of_int \<lfloor>x\<rfloor> + 1"
    by linarith+
  have c: "of_int (round_half_even x) = (of_int \<lfloor>x\<rfloor> :: real) \<and> x - of_int \<lfloor>x\<rfloor> \<le> 1 / 2
      \<or> of_int (round_half_even x) = (of_int \<lfloor>x\<rfloor> :: real) + 1 \<and> 1 / 2 \<le> x - of_int \<lfloor>x\<rfloor>"
    using round_half_even_cases [of x] by auto
  have "k \<le> \<lfloor>x\<rfloor> \<or> \<lfloor>x\<rfloor> + 1 \<le> k"
    by linarith
  then have k: "(of_int k :: real) \<le> of_int \<lfloor>x\<rfloor> \<or> (of_int \<lfloor>x\<rfloor> :: real) + 1 \<le> of_int k"
    by (metis of_int_1 of_int_add of_int_le_iff)
  from c lo hi k show ?thesis
    by (rule nearest_of_two)
qed

lemma round3_nearest: "\<bar>round3 x - x\<bar> \<le> \<bar>of_int k / 1000 - x\<bar>"
proof -
  have "\<bar>of_int (round_half_even (x * 1000)) - x * 1000\<bar> \<le> \<bar>of_int k - x * 1000\<bar>"
    by (rule round_half_even_nearest)
  then have "\<bar>(round3 x - x) * 1000\<bar> \<le> \<bar>(of_int k / 1000 - x) * 1000\<bar>"
    by (simp add: round3_def algebra_simps)
  then show ?thesis
    by (simp add: abs_mult)
qed

subsection \<open>int64\<close>


subsection \<open>The code computes the series of the specification\<close>



subsection \<open>The shift in exact arithmetic\<close>



subsection \<open>The shift in int64 arithmetic\<close>




subsection \<open>Evaluating the worked examples\<close>

lemma round3_1: "round3 1 = 1"
  by (simp add: round3_def round_half_even_def Let_def)

lemma round3_statistic: "round3 (15 / 16) = 938 / 1000"
  by (simp add: round3_def round_half_even_def Let_def)

lemma round3_pvalue: "round3 (1 / 16) = 62 / 1000"
  by (simp add: round3_def round_half_even_def Let_def)

lemma round3_twenty_thousandth: "round3 (1 / 20000) = 0"
  by (simp add: round3_def round_half_even_def Let_def)


lemma std_of_123: "std_of [1, 2, 3] = 1"
  by (simp add: std_of_def mean_of_def power2_eq_square)

lemma std_of_halves: "std_of [1 / 2, 3 / 2, 5 / 2] = 1"
  by (simp add: std_of_def mean_of_def power2_eq_square)

lemma std_of_four: "std_of [- 1, - 1, - 1, - (9999 / 10000)] = 1 / 20000"
proof -
  have "sqrt (1 / 400000000) = 1 / 20000"
    by (rule real_sqrt_unique) (simp_all add: power2_eq_square)
  then show ?thesis
    by (simp add: std_of_def mean_of_def power2_eq_square)
qed


lemma shift_four:
  "shift_target exact_dtype_ops [- 1, - 1, - 1, - (9999 / 10000)] = [1, 1, 1, 10001 / 10000]"
  by (simp add: shift_target_def exact_dtype_simps)


lemma trim_four:
  "drop_outliers exact_float_ops [- 1, - 1, - 1, - (9999 / 10000)]
     (shift_target exact_dtype_ops [- 1, - 1, - 1, - (9999 / 10000)]) = [1, 1, 1]"
  by (simp add: shift_four drop_outliers_def exact_float_simps std_of_four
        round3_twenty_thousandth mean_of_def)


lemma trim_123:
  "drop_outliers exact_float_ops [1, 2, 3] (shift_target exact_dtype_ops [1, 2, 3]) = [1, 2, 3]"
  by (simp add: shift_target_def exact_dtype_simps drop_outliers_def exact_float_simps
        std_of_123 round3_1 mean_of_def)

lemma trim_halves:
  "drop_outliers exact_float_ops [1 / 2, 3 / 2, 5 / 2]
     (shift_target exact_dtype_ops [1 / 2, 3 / 2, 5 / 2]) = [1 / 2, 3 / 2, 5 / 2]"
  by (simp add: shift_target_def exact_dtype_simps drop_outliers_def exact_float_simps
        std_of_halves round3_1 mean_of_def)

lemma no_integer: "\<not> sublist ''integer'' ''categorical''"
  by code_simp

lemma no_double: "\<not> sublist ''double'' ''categorical''"
  by code_simp

section \<open>Properties of validate\<close>

text \<open>
  C1: for a numeric regression target whose raw p-value is below 0.05, validate
  appends the TARGET_LOGNORMAL_DISTRIBUTION warning and the TRANSFORM_TARGET action
  exactly when the p-value of the log of the trimmed series is at least the p-value
  of the trimmed series itself, and returns the empty result otherwise. The details
  of the warning are the statistic and the p-value of the test on the untransformed
  trimmed series, each rounded to three decimals and joined by a slash: each rounded
  value is a whole number of thousandths, and no whole number of thousandths is
  nearer to the value it rounds. The metadata of the action are column None,
  is_target True and transformation_strategy lognormal. This holds in every
  arithmetic of the target.
\<close>

theorem validate_lognormal_decision:
  assumes "problem_type self = REGRESSION \<or> problem_type self = TIME_SERIES_REGRESSION"
      and "infer_feature_types env y = Inr (Series s)"
      and "type_string s = Integer_type_string env \<or> type_string s = Double_type_string env"
      and "shapiro env (vals s) = Inr r"
      and "pvalue r < 0.05"
      and "shapiro env
             (drop_outliers (float_arith env) (vals s)
                (shift_target (dtype_arith env) (vals s))) = Inr og"
      and "shapiro env
             (map (np_log (float_arith env))
                (drop_outliers (float_arith env) (vals s)
                   (shift_target (dtype_arith env) (vals s)))) = Inr lg"
  shows "validate env self X (Some y) =
           Inr (if pvalue og \<le> pvalue lg
                then \<lparr>warnings =
                        [\<lparr>message = ''Target may have a lognormal distribution.'',
                          data_check_name = ''TargetDistributionDataCheck'',
                          level = WARNING,
                          code = TARGET_LOGNORMAL_DISTRIBUTION,
                          details =
                            [(''shapiro-statistic/pvalue'',
                              PyStr (str_float env (round3 (statistic og)) @ ''/''
                                     @ str_float env (round3 (pvalue og))))]\<rparr>],
                      errors = [],
                      actions =
                        [\<lparr>action_code = TRANSFORM_TARGET,
                          metadata =
                            [(''column'', PyNone),
                             (''is_target'', PyBool True),
                             (''transformation_strategy'', PyStr ''lognormal'')]\<rparr>]\<rparr>
                else \<lparr>warnings = [], errors = [], actions = []\<rparr>)
         \<and> (\<exists>k :: int. round3 (statistic og) = of_int k / 1000)
         \<and> (\<forall>k :: int. \<bar>round3 (statistic og) - statistic og\<bar>
                          \<le> \<bar>of_int k / 1000 - statistic og\<bar>)
         \<and> (\<exists>k :: int. round3 (pvalue og) = of_int k / 1000)
         \<and> (\<forall>k :: int. \<bar>round3 (pvalue og) - pvalue og\<bar>
                          \<le> \<bar>of_int k / 1000 - pvalue og\<bar>)"
proof -
  have "validate env self X (Some y) =
           Inr (if pvalue og \<le> pvalue lg
                then \<lparr>warnings =
                        [\<lparr>message = ''Target may have a lognormal distribution.'',
                          data_check_name = ''TargetDistributionDataCheck'',
                          level = WARNING,
                          code = TARGET_LOGNORMAL_DISTRIBUTION,
                          details =
                            [(''shapiro-statistic/pvalue'',
                              PyStr (str_float env (round3 (statistic og)) @ ''/''
                                     @ str_float env (round3 (pvalue og))))]\<rparr>],
                      errors = [],
                      actions =
                        [\<lparr>action_code = TRANSFORM_TARGET,
                          metadata =
                            [(''column'', PyNone),
                             (''is_target'', PyBool True),
                             (''transformation_strategy'', PyStr ''lognormal'')]\<rparr>]\<rparr>
                else \<lparr>warnings = [], errors = [], actions = []\<rparr>)"
    using assms
    by (auto simp: validate_def detect_lognormal_def empty_results_def Let_def name_def
          DataCheckWarning_to_dict_def DataCheckAction_to_dict_def)
  moreover have "\<exists>k :: int. round3 x = of_int k / 1000" for x
    by (auto simp: round3_def)
  ultimately show ?thesis
    using round3_nearest by blast
qed

theorem validate_lognormal_decision_witness:
  "validate example_env regression_check ()
     (Some (Numbers [- 1, - 1, - 1, - (9999 / 10000)])) =
     Inr \<lparr>warnings =
            [\<lparr>message = ''Target may have a lognormal distribution.'',
              data_check_name = ''TargetDistributionDataCheck'',
              level = WARNING,
              code = TARGET_LOGNORMAL_DISTRIBUTION,
              details = [(''shapiro-statistic/pvalue'', PyStr ''0.938/0.062'')]\<rparr>],
          errors = [],
          actions =
            [\<lparr>action_code = TRANSFORM_TARGET,
              metadata =
                [(''column'', PyNone),
                 (''is_target'', PyBool True),
                 (''transformation_strategy'', PyStr ''lognormal'')]\<rparr>]\<rparr>
   \<and> drop_outliers exact_float_ops [- 1, - 1, - 1, - (9999 / 10000)]
         (shift_target exact_dtype_ops [- 1, - 1, - 1, - (9999 / 10000)]) = [1, 1, 1]
   \<and> round3 (15 / 16) = 938 / 1000
   \<and> round3 (1 / 16) = 62 / 1000
   \<and> validate example_env regression_check () (Some (Numbers [1 / 2, 3 / 2, 5 / 2])) =
     Inr \<lparr>warnings = [], errors = [], actions = []\<rparr>"
proof -
  let ?s1 = "\<lparr>type_string = ''double'', vals = [- 1, - 1, - 1, - (9999 / 10000)]\<rparr>"
  let ?s2 = "\<lparr>type_string = ''double'', vals = [1 / 2, 3 / 2, 5 / 2]\<rparr>"
  let ?raw1 = "\<lparr>statistic = 15 / 16, pvalue = 1 / 1000\<rparr>"
  let ?og1 = "\<lparr>statistic = 15 / 16, pvalue = 1 / 16\<rparr>"
  let ?lg1 = "\<lparr>statistic = 15 / 16, pvalue = 1 / 2\<rparr>"
  let ?raw2 = "\<lparr>statistic = 15 / 16, pvalue = 1 / 100\<rparr>"
  let ?lg2 = "\<lparr>statistic = 15 / 16, pvalue = 1 / 1000\<rparr>"
  have pt: "problem_type regression_check = REGRESSION
              \<or> problem_type regression_check = TIME_SERIES_REGRESSION"
    by (simp add: regression_check_def)
  have i1: "infer_feature_types example_env (Numbers [- 1, - 1, - 1, - (9999 / 10000)])
              = Inr (Series ?s1)"
    by (simp add: example_env_simps)
  have i2: "infer_feature_types example_env (Numbers [1 / 2, 3 / 2, 5 / 2]) = Inr (Series ?s2)"
    by (simp add: example_env_simps)
  have t1: "type_string ?s1 = Integer_type_string example_env
              \<or> type_string ?s1 = Double_type_string example_env"
    by (simp add: example_env_simps)
  have t2: "type_string ?s2 = Integer_type_string example_env
              \<or> type_string ?s2 = Double_type_string example_env"
    by (simp add: example_env_simps)
  have r1: "shapiro example_env (vals ?s1) = Inr ?raw1"
    by (simp add: example_env_simps example_shapiro_def)
  have r2: "shapiro example_env (vals ?s2) = Inr ?raw2"
    by (simp add: example_env_simps example_shapiro_def)
  have p1: "pvalue ?raw1 < 0.05"
    by simp
  have p2: "pvalue ?raw2 < 0.05"
    by simp
  have o1: "shapiro example_env
              (drop_outliers (float_arith example_env) (vals ?s1)
                 (shift_target (dtype_arith example_env) (vals ?s1))) = Inr ?og1"
    by (simp add: example_env_simps example_shapiro_def trim_four)
  have o2: "shapiro example_env
              (drop_outliers (float_arith example_env) (vals ?s2)
                 (shift_target (dtype_arith example_env) (vals ?s2))) = Inr ?raw2"
    by (simp add: example_env_simps example_shapiro_def trim_halves)
  have l1: "shapiro example_env
              (map (np_log (float_arith example_env))
                 (drop_outliers (float_arith example_env) (vals ?s1)
                    (shift_target (dtype_arith example_env) (vals ?s1)))) = Inr ?lg1"
    by (simp add: example_env_simps example_shapiro_def trim_four exact_float_simps)
  have l2: "shapiro example_env
              (map (np_log (float_arith example_env))
                 (drop_outliers (float_arith example_env) (vals ?s2)
                    (shift_target (dtype_arith example_env) (vals ?s2)))) = Inr ?lg2"
    by (simp add: example_env_simps example_shapiro_def trim_halves exact_float_simps)
  have A: "validate example_env regression_check ()
             (Some (Numbers [- 1, - 1, - 1, - (9999 / 10000)])) =
           Inr \<lparr>warnings =
                  [\<lparr>message = ''Target may have a lognormal distribution.'',
                    data_check_name = ''TargetDistributionDataCheck'',
                    level = WARNING,
                    code = TARGET_LOGNORMAL_DISTRIBUTION,
                    details = [(''shapiro-statistic/pvalue'', PyStr ''0.938/0.062'')]\<rparr>],
                errors = [],
                actions =
                  [\<lparr>action_code = TRANSFORM_TARGET,
                    metadata =
                      [(''column'', PyNone),
                       (''is_target'', PyBool True),
                       (''transformation_strategy'', PyStr ''lognormal'')]\<rparr>]\<rparr>"
    using validate_lognormal_decision [OF pt i1 t1 r1 p1 o1 l1, of "()", THEN conjunct1]
    by (simp add: example_env_simps example_str_float_def round3_statistic round3_pvalue)
  have B: "validate example_env regression_check () (Some (Numbers [1 / 2, 3 / 2, 5 / 2])) =
             Inr \<lparr>warnings = [], errors = [], actions = []\<rparr>"
    using validate_lognormal_decision [OF pt i2 t2 r2 p2 o2 l2, of "()", THEN conjunct1]
    by simp
  from A B show ?thesis
    by (simp add: trim_four round3_statistic round3_pvalue)
qed







text \<open>
  C4: for a numeric regression target whose raw p-value is at least 0.05, validate
  returns empty errors, warnings and actions. The normality test is not asked about
  any other sample: the result holds whatever it would answer, or raise, elsewhere.
\<close>

theorem validate_normal_target:
  assumes "problem_type self = REGRESSION \<or> problem_type self = TIME_SERIES_REGRESSION"
      and "infer_feature_types env y = Inr (Series s)"
      and "type_string s = Integer_type_string env \<or> type_string s = Double_type_string env"
      and "shapiro env (vals s) = Inr r"
      and "0.05 \<le> pvalue r"
  shows "validate env self X (Some y) = Inr \<lparr>warnings = [], errors = [], actions = []\<rparr>"
  using assms by (auto simp: validate_def empty_results_def Let_def)

theorem validate_normal_target_witness:
  "validate example_env regression_check () (Some (Numbers [0, 1, 2])) =
     Inr \<lparr>warnings = [], errors = [], actions = []\<rparr>"
proof -
  let ?s = "\<lparr>type_string = ''double'', vals = [0, 1, 2]\<rparr>"
  let ?r = "\<lparr>statistic = 15 / 16, pvalue = 1 / 2\<rparr>"
  have pt: "problem_type regression_check = REGRESSION
              \<or> problem_type regression_check = TIME_SERIES_REGRESSION"
    by (simp add: regression_check_def)
  have i: "infer_feature_types example_env (Numbers [0, 1, 2]) = Inr (Series ?s)"
    by (simp add: example_env_simps)
  have t: "type_string ?s = Integer_type_string example_env
              \<or> type_string ?s = Double_type_string example_env"
    by (simp add: example_env_simps)
  have r: "shapiro example_env (vals ?s) = Inr ?r"
    by (simp add: example_env_simps example_shapiro_def)
  have p: "0.05 \<le> pvalue ?r"
    by simp
  show ?thesis
    using validate_normal_target [OF pt i t r p, of "()"] by simp
qed

text \<open>
  C5: with a null target validate returns exactly one error, of code TARGET_IS_NONE
  and with empty details, and no warning or action, whatever the problem type and
  the collaborators are.
\<close>

theorem validate_target_is_none:
  "validate env self X None =
     Inr \<lparr>warnings = [],
          errors = [\<lparr>message = ''Target is None'',
                     data_check_name = ''TargetDistributionDataCheck'',
                     level = ERROR,
                     code = TARGET_IS_NONE,
                     details = []\<rparr>],
          actions = []\<rparr>"
  by (simp add: validate_def DataCheckError_to_dict_def name_def)

text \<open>
  C6: with a target that is not null and a problem type that is neither regression
  nor time series regression, validate returns exactly one error, of code
  TARGET_UNSUPPORTED_PROBLEM_TYPE, whose details hold the offending problem type,
  and no warning or action. Type inference and the normality test are not reached.
\<close>

theorem validate_unsupported_problem_type:
  assumes "problem_type self \<noteq> REGRESSION"
      and "problem_type self \<noteq> TIME_SERIES_REGRESSION"
  shows "validate env self X (Some y) =
           Inr \<lparr>warnings = [],
                errors =
                  [\<lparr>message =
                      ''Problem type '' @ str_problem_type env (problem_type self)
                      @ '' is unsupported. Valid problem types include: ''
                      @ ''[ProblemTypes.REGRESSION, ProblemTypes.TIME_SERIES_REGRESSION]'',
                    data_check_name = ''TargetDistributionDataCheck'',
                    level = ERROR,
                    code = TARGET_UNSUPPORTED_PROBLEM_TYPE,
                    details =
                      [(''unsupported_problem_type'',
                        PyProblemType (problem_type self))]\<rparr>],
                actions = []\<rparr>"
  using assms by (simp add: validate_def DataCheckError_to_dict_def name_def)

theorem validate_unsupported_problem_type_witness:
  "validate example_env binary_check () (Some (Numbers [1, 2, 3])) =
     Inr \<lparr>warnings = [],
          errors =
            [\<lparr>message =
                ''Problem type binary is unsupported. Valid problem types include: ''
                @ ''[ProblemTypes.REGRESSION, ProblemTypes.TIME_SERIES_REGRESSION]'',
              data_check_name = ''TargetDistributionDataCheck'',
              level = ERROR,
              code = TARGET_UNSUPPORTED_PROBLEM_TYPE,
              details =
                [(''unsupported_problem_type'',
                  PyProblemType (OTHER_PROBLEM_TYPE ''binary''))]\<rparr>],
          actions = []\<rparr>"
proof -
  have a: "problem_type binary_check \<noteq> REGRESSION"
    by (simp add: binary_check_def)
  have b: "problem_type binary_check \<noteq> TIME_SERIES_REGRESSION"
    by (simp add: binary_check_def)
  show ?thesis
    using validate_unsupported_problem_type
            [OF a b, of example_env "()" "Numbers [1, 2, 3]"]
    by (simp add: example_env_simps binary_check_def)
qed

text \<open>
  C7, as the code has it: the details of the unsupported-type error hold the detected
  type under the key unsupported_type and nothing else. For a column of words they
  mention categorical, and neither integer nor double.
\<close>

theorem unsupported_type_details_omit_allowed_types:
  "validate example_env regression_check () (Some (Words [''red'', ''blue''])) =
     Inr \<lparr>warnings = [], errors = [example_unsupported_type_error], actions = []\<rparr>
   \<and> details example_unsupported_type_error = [(''unsupported_type'', PyStr ''categorical'')]
   \<and> details_mention (details example_unsupported_type_error) ''categorical''
   \<and> \<not> details_mention (details example_unsupported_type_error) ''integer''
   \<and> \<not> details_mention (details example_unsupported_type_error) ''double''"
  by (simp add: validate_def regression_check_def example_env_simps Let_def
        DataCheckError_to_dict_def name_def example_unsupported_type_error_def
        details_mention_def no_integer no_double)

text \<open>
  C7, amended: with a target that is not null, a supported problem type and an
  inferred type other than Woodwork's integer and double, validate returns exactly
  one error, of code TARGET_UNSUPPORTED_TYPE, and no warning or action. The details
  of the error hold the detected type only; the allowed types are listed in its
  message, after the detected type. The normality test is not reached.
\<close>

theorem validate_unsupported_type:
  assumes "problem_type self = REGRESSION \<or> problem_type self = TIME_SERIES_REGRESSION"
      and "infer_feature_types env y = Inr (Series s)"
      and "type_string s \<noteq> Integer_type_string env"
      and "type_string s \<noteq> Double_type_string env"
  shows "validate env self X (Some y) =
           Inr \<lparr>warnings = [],
                errors =
                  [\<lparr>message =
                      ''Target is unsupported '' @ type_string s
                      @ '' type. Valid Woodwork logical types include: ''
                      @ Integer_type_string env @ '', '' @ Double_type_string env,
                    data_check_name = ''TargetDistributionDataCheck'',
                    level = ERROR,
                    code = TARGET_UNSUPPORTED_TYPE,
                    details = [(''unsupported_type'', PyStr (type_string s))]\<rparr>],
                actions = []\<rparr>"
  using assms by (auto simp: validate_def Let_def DataCheckError_to_dict_def name_def)

theorem validate_unsupported_type_witness:
  "validate example_env regression_check () (Some (Words [''red'', ''blue''])) =
     Inr \<lparr>warnings = [],
          errors =
            [\<lparr>message =
                ''Target is unsupported categorical type. ''
                @ ''Valid Woodwork logical types include: integer, double'',
              data_check_name = ''TargetDistributionDataCheck'',
              level = ERROR,
              code = TARGET_UNSUPPORTED_TYPE,
              details = [(''unsupported_type'', PyStr ''categorical'')]\<rparr>],
          actions = []\<rparr>"
proof -
  let ?s = "\<lparr>type_string = ''categorical'', vals = [] :: real list\<rparr>"
  have pt: "problem_type regression_check = REGRESSION
              \<or> problem_type regression_check = TIME_SERIES_REGRESSION"
    by (simp add: regression_check_def)
  have i: "infer_feature_types example_env (Words [''red'', ''blue'']) = Inr (Series ?s)"
    by (simp add: example_env_simps)
  have a: "type_string ?s \<noteq> Integer_type_string example_env"
    by (simp add: example_env_simps)
  have b: "type_string ?s \<noteq> Double_type_string example_env"
    by (simp add: example_env_simps)
  show ?thesis
    using validate_unsupported_type [OF pt i a b, of "()"]
    by (simp add: example_env_simps)
qed

text \<open>
  C8: a result of validate never holds an error together with a warning or an
  action: when its list of errors is not empty, its lists of warnings and of
  actions are.
\<close>

theorem validate_errors_exclude_warnings_and_actions:
  assumes "validate env self X y = Inr res"
      and "errors res \<noteq> []"
  shows "warnings res = [] \<and> actions res = []"
  using assms
  by (auto simp: validate_def detect_lognormal_def empty_results_def Let_def
           split: option.splits sum.splits ww_data.splits if_splits)

theorem validate_errors_exclude_warnings_and_actions_witness:
  "errors \<lparr>warnings = [],
           errors = [\<lparr>message = ''Target is None'',
                      data_check_name = ''TargetDistributionDataCheck'',
                      level = ERROR,
                      code = TARGET_IS_NONE,
                      details = []\<rparr>],
           actions = []\<rparr> \<noteq> []
   \<and> validate example_env regression_check () None =
       Inr \<lparr>warnings = [],
            errors = [\<lparr>message = ''Target is None'',
                       data_check_name = ''TargetDistributionDataCheck'',
                       level = ERROR,
                       code = TARGET_IS_NONE,
                       details = []\<rparr>],
            actions = []\<rparr>
   \<and> warnings \<lparr>warnings = [],
               errors = [\<lparr>message = ''Target is None'',
                          data_check_name = ''TargetDistributionDataCheck'',
                          level = ERROR,
                          code = TARGET_IS_NONE,
                          details = []\<rparr>],
               actions = ([] :: action_dict list)\<rparr> = []"
proof -
  let ?res = "\<lparr>warnings = [],
               errors = [\<lparr>message = ''Target is None'',
                          data_check_name = ''TargetDistributionDataCheck'',
                          level = ERROR,
                          code = TARGET_IS_NONE,
                          details = []\<rparr>],
               actions = ([] :: action_dict list)\<rparr>"
  have v: "validate example_env regression_check () None = Inr ?res"
    by (simp add: validate_def DataCheckError_to_dict_def name_def)
  have e: "errors ?res \<noteq> []"
    by simp
  show ?thesis
    using validate_errors_exclude_warnings_and_actions [OF v e] v by simp
qed

text \<open>
  C9: validate is a function of the collaborators, the check and the target alone.
  The features have no influence on the result: any two feature arguments, even of
  different types, give the same result for the same target.
\<close>

theorem validate_ignores_features:
  "validate env self X1 y = validate env self X2 y"
  by (simp add: validate_def)

section \<open>Properties of the estimator wrapper\<close>

text \<open>
  C10: predict, predict_proba and score call the method of the same name on the
  wrapped model, which is left as that call leaves it, and never return a value:
  when the wrapped call returns a result the wrapper drops it and returns None.
\<close>

theorem estimator_methods_return_None:
  "(\<forall>v. fst (predict lib self X) \<noteq> Inr (Some v))
   \<and> (\<forall>v. fst (predict_proba lib self X) \<noteq> Inr (Some v))
   \<and> (\<forall>v. fst (score lib self X y other_objectives) \<noteq> Inr (Some v))
   \<and> component_obj (snd (predict lib self X)) = snd (obj_predict lib (component_obj self) X)
   \<and> component_obj (snd (predict_proba lib self X))
       = snd (obj_predict_proba lib (component_obj self) X)
   \<and> component_obj (snd (score lib self X y other_objectives))
       = snd (obj_score lib (component_obj self) X y)
   \<and> (obj_predict lib (component_obj self) X = (Inr p, m1)
        \<longrightarrow> predict lib self X = (Inr None, self\<lparr>component_obj := m1\<rparr>))
   \<and> (obj_predict_proba lib (component_obj self) X = (Inr q, m2)
        \<longrightarrow> predict_proba lib self X = (Inr None, self\<lparr>component_obj := m2\<rparr>))
   \<and> (obj_score lib (component_obj self) X y = (Inr sc, m3)
        \<longrightarrow> score lib self X y other_objectives = (Inr None, self\<lparr>component_obj := m3\<rparr>))"
  by (auto simp: predict_def predict_proba_def score_def split: prod.splits sum.splits)

theorem estimator_methods_return_None_witness:
  "obj_predict example_model [] 3 = (Inr 4, [''predict''])
   \<and> predict example_model \<lparr>component_obj = []\<rparr> 3
       = (Inr None, \<lparr>component_obj = [''predict'']\<rparr>)
   \<and> obj_predict_proba example_model [''fit''] 3 = (Inr 5, [''fit'', ''predict_proba''])
   \<and> predict_proba example_model \<lparr>component_obj = [''fit'']\<rparr> 3
       = (Inr None, \<lparr>component_obj = [''fit'', ''predict_proba'']\<rparr>)
   \<and> obj_score example_model [] 3 4 = (Inr 7, [''score''])
   \<and> score example_model \<lparr>component_obj = []\<rparr> 3 4 (None :: unit option)
       = (Inr None, \<lparr>component_obj = [''score'']\<rparr>)"
proof -
  have a: "obj_predict example_model (component_obj \<lparr>component_obj = []\<rparr>) 3
             = (Inr 4, [''predict''])"
    by (simp add: example_model_def)
  have b: "obj_predict_proba example_model (component_obj \<lparr>component_obj = [''fit'']\<rparr>) 3
             = (Inr 5, [''fit'', ''predict_proba''])"
    by (simp add: example_model_def)
  have c: "obj_score example_model (component_obj \<lparr>component_obj = []\<rparr>) 3 4
             = (Inr 7, [''score''])"
    by (simp add: example_model_def)
  have "predict example_model \<lparr>component_obj = []\<rparr> 3
          = (Inr None, \<lparr>component_obj = [''predict'']\<rparr>)"
    using estimator_methods_return_None
            [of example_model "\<lparr>component_obj = []\<rparr>" 3 4 "None :: unit option"
                4 "[''predict'']" 5 "[]" 7 "[]"] a
    by simp
  moreover have "predict_proba example_model \<lparr>component_obj = [''fit'']\<rparr> 3
          = (Inr None, \<lparr>component_obj = [''fit'', ''predict_proba'']\<rparr>)"
    using estimator_methods_return_None
            [of example_model "\<lparr>component_obj = [''fit'']\<rparr>" 3 4 "None :: unit option"
                4 "[]" 5 "[''fit'', ''predict_proba'']" 7 "[]"] b
    by simp
  moreover have "score example_model \<lparr>component_obj = []\<rparr> 3 4 (None :: unit option)
          = (Inr None, \<lparr>component_obj = [''score'']\<rparr>)"
    using estimator_methods_return_None
            [of example_model "\<lparr>component_obj = []\<rparr>" 3 4 "None :: unit option"
                4 "[]" 5 "[]" 7 "[''score'']"] c
    by simp
  ultimately show ?thesis
    using a b c by simp
qed

end
